theory Spec2Isabelle
  imports Complex_Main
begin

section \<open>Data model of \<open>bulk/file.go\<close>\<close>

text \<open>
  A Go \<open>[]byte\<close> is a list of 8-bit characters. A nil slice and an empty slice are both
  the empty list: the source only ever asks for \<open>len\<close> and \<open>bytes.Equal\<close>, which do not
  tell them apart.
\<close>

type_synonym bytes = string

text \<open>
  Go errors are carried as values. \<open>Error\<close> is an ordinary \<open>error\<close> with its message,
  \<open>Panic\<close> a run-time panic (a nil pointer dereference).
\<close>

datatype error = Error string | Panic string

text \<open>
  The dynamic values of an \<open>any\<close> (empty interface) that the model tells apart: what
  \<open>json.Unmarshal\<close> stores into an \<open>any\<close>, and the map types a response body can have.
  \<open>GoMapAny\<close> is a non-nil \<open>map[string]interface{}\<close>, \<open>GoMapString\<close> a non-nil
  \<open>map[string]string\<close>, \<open>GoNilMap\<close> a nil \<open>map[string]interface{}\<close>. A
  \<open>float64\<close> read from JSON is carried as the rational it denotes.
\<close>

datatype any =
    GoNil
  | GoBool bool
  | GoFloat64 rat
  | GoString string
  | GoSlice "any list"
  | GoMapAny "(string \<times> any) list"
  | GoMapString "(string \<times> string) list"
  | GoNilMap

text \<open>The \<open>reflect.Kind\<close>s that occur.\<close>

datatype kind = Invalid | KBool | KFloat64 | KString | KSlice | KMap | KInterface

text \<open>\<open>reflect.ValueOf(x).Kind()\<close>: \<open>ValueOf\<close> unpacks the interface it is given.\<close>

fun Kind :: "any \<Rightarrow> kind" where
  "Kind GoNil = Invalid"
| "Kind (GoBool _) = KBool"
| "Kind (GoFloat64 _) = KFloat64"
| "Kind (GoString _) = KString"
| "Kind (GoSlice _) = KSlice"
| "Kind (GoMapAny _) = KMap"
| "Kind (GoMapString _) = KMap"
| "Kind GoNilMap = KMap"

text \<open>\<open>v.IsNil()\<close> for a value of kind \<open>Map\<close>.\<close>

fun IsNil :: "any \<Rightarrow> bool" where
  "IsNil GoNilMap = True"
| "IsNil _ = False"

text \<open>
  The kind of \<open>v.MapIndex(reflect.ValueOf(key))\<close> for a string key. A missing key gives
  the zero \<open>Value\<close>, of kind \<open>Invalid\<close>. A key that is present gives a \<open>Value\<close> of the
  map's static element type: kind \<open>Interface\<close> for \<open>map[string]interface{}\<close> whatever
  the element holds, kind \<open>String\<close> for \<open>map[string]string\<close>.
\<close>

fun MapIndexKind :: "any \<Rightarrow> string \<Rightarrow> kind" where
  "MapIndexKind (GoMapAny m) key = (case map_of m key of None \<Rightarrow> Invalid | Some _ \<Rightarrow> KInterface)"
| "MapIndexKind (GoMapString m) key = (case map_of m key of None \<Rightarrow> Invalid | Some _ \<Rightarrow> KString)"
| "MapIndexKind _ key = Invalid"

text \<open>
  \<open>v.String()\<close> of \<open>reflect.Value\<close>: the string itself for kind \<open>String\<close>, and
  \<open><T Value>\<close> with the type's name for every other kind.
\<close>

fun ValueString :: "any \<Rightarrow> string" where
  "ValueString GoNil = ''<invalid Value>''"
| "ValueString (GoBool _) = ''<bool Value>''"
| "ValueString (GoFloat64 _) = ''<float64 Value>''"
| "ValueString (GoString s) = s"
| "ValueString (GoSlice _) = ''<[]interface {} Value>''"
| "ValueString (GoMapAny _) = ''<map[string]interface {} Value>''"
| "ValueString (GoMapString _) = ''<map[string]string Value>''"
| "ValueString GoNilMap = ''<map[string]interface {} Value>''"

text \<open>
  The collaborators \<open>file.go\<close> calls and does not define, taken as parameters:
  \<^item> \<open>Unmarshal\<close>: what \<open>json.Unmarshal(data, &tmp)\<close> leaves in \<open>tmp\<close> of type \<open>any\<close>:
    \<open>None\<close> when it stores nothing and \<open>tmp\<close> stays nil, as on every syntax error,
    \<open>Some v\<close> when it stores \<open>v\<close>; its error return is dropped by the only caller;
  \<^item> \<open>MarshalShort\<close>: \<open>cli.MarshalShort("json", true, v)\<close>;
  \<^item> \<open>Hash128\<close>: \<open>xxh3.Hash128(b).Bytes()\<close> as a slice;
  \<^item> \<open>ResolveReference\<close>: \<open>url.Parse\<close> of the base and of the reference, then
    \<open>base.ResolveReference(ref).String()\<close>; the parse errors are dropped by the source,
    so a URL that does not parse is a nil pointer and the call panics: \<open>None\<close>.
\<close>

record env =
  Unmarshal :: "bytes \<Rightarrow> any option"
  MarshalShort :: "any \<Rightarrow> error + bytes"
  Hash128 :: "bytes \<Rightarrow> bytes"
  ResolveReference :: "string \<Rightarrow> string \<Rightarrow> string option"

text \<open>
  \<open>path.Join\<close> and \<open>path.Clean\<close> of Go's standard library, by path elements (the runs
  of bytes between slashes). Each turn of the loop of \<open>Clean\<close> reads one slash or one
  element: an empty element and \<open>.\<close> are dropped; \<open>..\<close> removes the last element
  written when there is one that is not itself \<open>..\<close>, is written when there is none
  and the path is not rooted, and is dropped at the root; every other element is
  written. \<open>out\<close> is the list of elements written, the last one first. The result is
  the elements joined by slashes, after a slash when the path is rooted, and \<open>.\<close>
  when nothing was written. \<open>Join\<close> puts a slash between its non-empty arguments and
  cleans the result.
\<close>

fun split_slash :: "string \<Rightarrow> string list" where
  "split_slash [] = [[]]"
| "split_slash (c # cs) =
     (if c = CHR ''/'' then [] # split_slash cs
      else (case split_slash cs of [] \<Rightarrow> [[c]] | el # els \<Rightarrow> (c # el) # els))"

fun join_slash :: "string list \<Rightarrow> string" where
  "join_slash [] = []"
| "join_slash [el] = el"
| "join_slash (el # els) = el @ CHR ''/'' # join_slash els"

definition Clean_step :: "bool \<Rightarrow> string \<Rightarrow> string list \<Rightarrow> string list" where
  "Clean_step rooted el out =
     (if el = [] \<or> el = ''.'' then out
      else if el = ''..'' then
        (if out \<noteq> [] \<and> hd out \<noteq> ''..'' then tl out
         else if \<not> rooted then ''..'' # out
         else out)
      else el # out)"

definition Clean :: "string \<Rightarrow> string" where
  "Clean path =
     (if path = [] then ''.''
      else
        (let rooted = (hd path = CHR ''/'');
             out = fold (Clean_step rooted) (split_slash path) []
         in if rooted then CHR ''/'' # join_slash (rev out)
            else if out = [] then ''.''
            else join_slash (rev out)))"

definition Join :: "string \<Rightarrow> string \<Rightarrow> string" where
  "Join a b =
     (if a = [] \<and> b = [] then []
      else Clean (if a = [] then b else if b = [] then a else a @ CHR ''/'' # b))"

text \<open>
  \<open>filepath.Abs\<close> for a working directory \<open>wd\<close>: an absolute path is cleaned, any other
  path is joined to the working directory. A \<open>..\<close> that would lead above the root is
  dropped by \<open>Clean\<close>, as the operating system drops it.
\<close>

definition Abs :: "string \<Rightarrow> string \<Rightarrow> string" where
  "Abs wd name = (if name \<noteq> [] \<and> hd name = CHR ''/'' then Clean name else Join wd name)"

text \<open>
  The file system behind the global \<open>afs\<close>, as the operations see it through path
  names:
  \<^item> \<open>files\<close> gives the bytes a read of a path returns, for the paths that can be read;
  \<^item> \<open>unreadable\<close> holds the paths at which something exists that cannot be opened (a
    file without permission, a directory, a failing device): it counts where \<open>files\<close>
    has no entry, and a write there fails as well;
  \<^item> \<open>unwritable\<close> holds the other paths at which \<open>WriteFile\<close> fails (a read-only
    file, a read-only directory);
  \<^item> \<open>file_of\<close> sends a path to the file it names: two paths name one file exactly
    when \<open>file_of\<close> agrees on them. The working directory, a \<open>..\<close> above the root and
    links make different strings name one file.
  Directories are not tracked: the source drops the result of \<open>MkdirAll\<close>.
\<close>

record filesystem =
  files :: "string \<rightharpoonup> bytes"
  unwritable :: "string set"
  unreadable :: "string set"
  file_of :: "string \<Rightarrow> string"

text \<open>
  \<open>afero.ReadFile\<close>: the bytes, or an error when the file cannot be read: there is no
  such file, or there is one and it cannot be opened.
\<close>

definition ReadFile :: "filesystem \<Rightarrow> string \<Rightarrow> error + bytes" where
  "ReadFile fs name =
     (case files fs name of
        Some b \<Rightarrow> Inr b
      | None \<Rightarrow>
          (if name \<in> unreadable fs then Inl (Error (''open '' @ name @ '': permission denied''))
           else Inl (Error (''open '' @ name @ '': file does not exist''))))"

text \<open>
  \<open>afero.WriteFile\<close>: the error (\<open>None\<close> is Go's nil) and the file system after it. A
  write that succeeds is seen through every path that names the file written. A write
  that fails leaves the file system as it was.
\<close>

definition writable :: "filesystem \<Rightarrow> string \<Rightarrow> bool" where
  "writable fs name =
     (name \<notin> unwritable fs \<and> \<not> (files fs name = None \<and> name \<in> unreadable fs))"

definition written :: "filesystem \<Rightarrow> string \<Rightarrow> bytes \<Rightarrow> (string \<rightharpoonup> bytes)" where
  "written fs name b = (\<lambda>n. if file_of fs n = file_of fs name then Some b else files fs n)"

definition WriteFile :: "filesystem \<Rightarrow> string \<Rightarrow> bytes \<Rightarrow> error option \<times> filesystem" where
  "WriteFile fs name b =
     (if writable fs name then (None, fs\<lparr>files := written fs name b\<rparr>)
      else (Some (Error (''open '' @ name @ '': permission denied'')), fs))"

text \<open>The struct \<open>File\<close>.\<close>

record File =
  Path :: string
  URL :: string
  ETag :: string
  LastModified :: string
  VersionRemote :: string
  VersionLocal :: string
  Schema :: string
  Hash :: bytes

text \<open>
  What \<open>Fetch\<close> reads of \<open>cli.Response\<close>. \<open>Headers\<close> is a \<open>map[string]string\<close> and
  \<open>Links\<close> a \<open>map[string][]*Link\<close>; indexing a Go map at a missing key gives the zero
  value: the empty string, the nil slice.
\<close>

record Link =
  URI :: string

record Response =
  Status :: int
  Headers :: "string \<rightharpoonup> string"
  Links :: "string \<rightharpoonup> Link list"
  Body :: any

definition header :: "Response \<Rightarrow> string \<Rightarrow> string" where
  "header resp k = (case Headers resp k of None \<Rightarrow> [] | Some v \<Rightarrow> v)"

definition links :: "Response \<Rightarrow> string \<Rightarrow> Link list" where
  "links resp k = (case Links resp k of None \<Rightarrow> [] | Some l \<Rightarrow> l)"

text \<open>
  Modelled from the spec: the constant \<open>metaDir\<close> is declared in a file of the package
  that is not part of the sources at hand; the spec places the reference copies under
  \<open>.rshbulk/<path>\<close>.
\<close>

definition metaDir :: string where
  "metaDir = ''.rshbulk''"

section \<open>The operations of \<open>bulk/file.go\<close>\<close>

text \<open>
  \<open>reformat\<close>: the result of \<open>json.Unmarshal\<close> is dropped, so after a syntax error
  \<open>tmp\<close> is still nil and it is nil that is marshalled.
\<close>

definition reformat :: "env \<Rightarrow> bytes \<Rightarrow> error + bytes" where
  "reformat e data =
     (let tmp = (case Unmarshal e data of None \<Rightarrow> GoNil | Some v \<Rightarrow> v)
      in MarshalShort e tmp)"

definition hash :: "env \<Rightarrow> bytes \<Rightarrow> bytes" where
  "hash e b = Hash128 e b"

definition GetData :: "filesystem \<Rightarrow> File \<Rightarrow> error + bytes" where
  "GetData fs f = ReadFile fs (Path f)"

text \<open>
  \<open>IsChangedLocal\<close>: the result, and the warnings it logs through \<open>cli.LogWarning\<close>
  (each by the path it names).
\<close>

definition IsChangedLocal :: "env \<Rightarrow> filesystem \<Rightarrow> File \<Rightarrow> bool \<Rightarrow> bool \<times> string list" where
  "IsChangedLocal e fs f ignoreDeleted =
     (if length (Hash f) = 0 then (False, [])
      else case GetData fs f of
        Inl err \<Rightarrow> (\<not> ignoreDeleted, [])
      | Inr b \<Rightarrow>
          (case reformat e b of
             Inl err \<Rightarrow> (False, [Path f])
           | Inr b' \<Rightarrow> (hash e b' \<noteq> Hash f, [])))"

definition IsChangedRemote :: "File \<Rightarrow> bool" where
  "IsChangedRemote f = (VersionLocal f \<noteq> VersionRemote f)"

text \<open>\<open>WriteCached\<close> and \<open>Write\<close>: the result of \<open>MkdirAll\<close> is dropped by both.\<close>

definition WriteCached :: "filesystem \<Rightarrow> File \<Rightarrow> bytes \<Rightarrow> error option \<times> filesystem" where
  "WriteCached fs f b = WriteFile fs (Join ''.rshbulk'' (Path f)) b"

definition Write :: "env \<Rightarrow> filesystem \<Rightarrow> File \<Rightarrow> bytes \<Rightarrow> error option \<times> File \<times> filesystem" where
  "Write e fs f b =
     (let f' = f\<lparr>Hash := hash e b\<rparr>;
          (err, fs') = WriteFile fs (Path f') b
      in (err, f', fs'))"

definition Reset :: "env \<Rightarrow> filesystem \<Rightarrow> File \<Rightarrow> error option \<times> File \<times> filesystem" where
  "Reset e fs f =
     (case ReadFile fs (Join metaDir (Path f)) of
        Inl err \<Rightarrow> (Some err, f, fs)
      | Inr cached \<Rightarrow> Write e fs f cached)"

text \<open>
  \<open>Fetch\<close>, given what \<open>cli.GetParsedResponse\<close> returned for the GET of \<open>f.URL\<close>. The
  record and the file system are returned as they stand when \<open>Fetch\<close> returns, on every
  path. What it prints on a status of 400 or more is not part of the model.
\<close>

definition Fetch ::
  "env \<Rightarrow> error + Response \<Rightarrow> filesystem \<Rightarrow> File \<Rightarrow> (error + bytes) \<times> File \<times> filesystem" where
  "Fetch e got fs f =
     (case got of
        Inl err \<Rightarrow> (Inl err, f, fs)
      | Inr resp \<Rightarrow>
          (if Status resp \<ge> 400 then (Inl (Error (''error fetching '' @ URL f)), f, fs)
           else
             (let etag = header resp ''Etag'';
                  f1 = (if etag \<noteq> [] then f\<lparr>ETag := etag\<rparr> else f);
                  lastModified = header resp ''Last-Modified'';
                  f2 = (if lastModified \<noteq> [] then f1\<lparr>LastModified := lastModified\<rparr> else f1);
                  r3 = (case links resp ''describedby'' of
                          l # _ \<Rightarrow>
                            (case ResolveReference e (URL f2) (URI l) of
                               None \<Rightarrow> Inl (Panic ''nil pointer dereference'')
                             | Some s \<Rightarrow> Inr (f2\<lparr>Schema := s\<rparr>))
                        | [] \<Rightarrow>
                            (let v = Body resp in
                             if Kind v = KMap \<and> \<not> IsNil v then
                               (if MapIndexKind v ''$schema'' = KString
                                then Inr (f2\<lparr>Schema := ValueString v\<rparr>)
                                else Inr f2)
                             else Inr f2))
              in (case r3 of
                    Inl err \<Rightarrow> (Inl err, f2, fs)
                  | Inr f3 \<Rightarrow>
                      (case MarshalShort e (Body resp) of
                         Inl err \<Rightarrow> (Inl err, f3, fs)
                       | Inr b \<Rightarrow>
                           (let f4 = f3\<lparr>VersionLocal := VersionRemote f3\<rparr> in
                            (case WriteCached fs f4 b of
                               (Some err, fs') \<Rightarrow> (Inl err, f4, fs')
                             | (None, fs') \<Rightarrow> (Inr b, f4, fs'))))))))"

text \<open>
  The two middle blocks of \<open>Fetch\<close> on their own, so that statements can name the
  record between them: \<open>headers_step\<close> is the two header assignments (lines 106 to
  112), \<open>schema_step\<close> the assignment of \<open>Schema\<close> (lines 114 to 126).
  Lemma \<open>Fetch_stages\<close> below shows that \<open>Fetch\<close> is their composition.
\<close>

definition headers_step :: "Response \<Rightarrow> File \<Rightarrow> File" where
  "headers_step resp f =
     (let f1 = (if header resp ''Etag'' \<noteq> [] then f\<lparr>ETag := header resp ''Etag''\<rparr> else f)
      in if header resp ''Last-Modified'' \<noteq> []
         then f1\<lparr>LastModified := header resp ''Last-Modified''\<rparr> else f1)"

definition schema_step :: "env \<Rightarrow> Response \<Rightarrow> File \<Rightarrow> error + File" where
  "schema_step e resp f2 =
     (case links resp ''describedby'' of
        l # _ \<Rightarrow>
          (case ResolveReference e (URL f2) (URI l) of
             None \<Rightarrow> Inl (Panic ''nil pointer dereference'')
           | Some s \<Rightarrow> Inr (f2\<lparr>Schema := s\<rparr>))
      | [] \<Rightarrow>
          (let v = Body resp in
           if Kind v = KMap \<and> \<not> IsNil v then
             (if MapIndexKind v ''$schema'' = KString
              then Inr (f2\<lparr>Schema := ValueString v\<rparr>)
              else Inr f2)
           else Inr f2))"

text \<open>
  The fingerprint \<open>IsChangedLocal\<close> compares with \<open>Hash\<close>: the working copy read by
  \<open>GetData\<close>, passed through \<open>reformat\<close>, then through \<open>hash\<close>.
\<close>

definition fingerprint :: "env \<Rightarrow> filesystem \<Rightarrow> File \<Rightarrow> error + bytes" where
  "fingerprint e fs f =
     (case GetData fs f of
        Inl err \<Rightarrow> Inl err
      | Inr b \<Rightarrow> (case reformat e b of Inl err \<Rightarrow> Inl err | Inr b' \<Rightarrow> Inr (hash e b')))"

section \<open>A sample environment\<close>

text \<open>
  Concrete collaborators on which the operations can be run. The codec reads the JSON
  documents \<open>null\<close>, \<open>true\<close>, \<open>false\<close> and \<open>{}\<close>, with any number of spaces around the
  tokens, and rejects every other input as a syntax error; it writes these documents
  without spaces, and an object of one string field as \<open>{"k":"v"}\<close>. The fingerprint
  pads or cuts its input to 16 bytes, so it is injective on inputs shorter than 16
  bytes. Every URL parses, and a reference resolves to itself, as an absolute
  reference does.
\<close>

definition sample_unmarshal :: "bytes \<Rightarrow> any option" where
  "sample_unmarshal data =
     (let t = filter (\<lambda>c. c \<noteq> CHR '' '') data in
      if t = ''null'' then Some GoNil
      else if t = ''true'' then Some (GoBool True)
      else if t = ''false'' then Some (GoBool False)
      else if t = ''{}'' then Some (GoMapAny [])
      else None)"

fun sample_marshal :: "any \<Rightarrow> error + bytes" where
  \<open>sample_marshal GoNil = Inr ''null''\<close>
| \<open>sample_marshal (GoBool b) = Inr (if b then ''true'' else ''false'')\<close>
| \<open>sample_marshal (GoMapAny []) = Inr ''{}''\<close>
| \<open>sample_marshal (GoMapAny [(k, GoString v)]) = Inr (''{"'' @ k @ ''":"'' @ v @ ''"}'')\<close>
| \<open>sample_marshal (GoMapString []) = Inr ''{}''\<close>
| \<open>sample_marshal (GoMapString [(k, v)]) = Inr (''{"'' @ k @ ''":"'' @ v @ ''"}'')\<close>
| \<open>sample_marshal GoNilMap = Inr ''null''\<close>
| \<open>sample_marshal _ = Inl (Error ''json: unsupported value'')\<close>

definition sample_hash :: "bytes \<Rightarrow> bytes" where
  "sample_hash b = take 16 (b @ replicate 16 (CHR 0x00))"

definition sample_env :: env where
  "sample_env =
     \<lparr>Unmarshal = sample_unmarshal,
      MarshalShort = sample_marshal,
      Hash128 = sample_hash,
      ResolveReference = (\<lambda>base ref. Some ref)\<rparr>"

definition sample_file :: File where
  "sample_file =
     \<lparr>Path = ''a/items/a1.json'', URL = ''https://example.com/users/a/items/a1'',
      ETag = ''e0'', LastModified = ''m0'', VersionRemote = ''a12'', VersionLocal = ''a11'',
      Schema = ''s0'', Hash = []\<rparr>"

definition empty_fs :: filesystem where
  "empty_fs = \<lparr>files = Map.empty, unwritable = {},
      unreadable = {}, file_of = (\<lambda>n. n)\<rparr>"


text \<open>
  File systems and responses for the sample environment. In all of them but
  \<open>deep_fs\<close> every path names a file of its own. In \<open>unreadable_fs\<close> the reference copy
  exists and cannot be read. In \<open>deep_fs\<close> the working directory is \<open>/w/d\<close>, two levels
  below the root, and the path of \<open>escaping_file\<close> climbs three levels.
\<close>

definition cached_fs :: filesystem where
  "cached_fs = \<lparr>files = [''.rshbulk/a/items/a1.json'' \<mapsto> ''{}''], unwritable = {},
      unreadable = {}, file_of = (\<lambda>n. n)\<rparr>"

definition readonly_fs :: filesystem where
  "readonly_fs =
     \<lparr>files = [''.rshbulk/a/items/a1.json'' \<mapsto> ''{}''], unwritable = {''a/items/a1.json''},
      unreadable = {}, file_of = (\<lambda>n. n)\<rparr>"

definition broken_fs :: filesystem where
  "broken_fs = \<lparr>files = [''a/items/a1.json'' \<mapsto> ''{''], unwritable = {},
      unreadable = {}, file_of = (\<lambda>n. n)\<rparr>"

definition working_fs :: filesystem where
  "working_fs = \<lparr>files = [''a/items/a1.json'' \<mapsto> ''true''], unwritable = {},
      unreadable = {}, file_of = (\<lambda>n. n)\<rparr>"


definition unreadable_fs :: filesystem where
  "unreadable_fs =
     \<lparr>files = Map.empty, unwritable = {},
      unreadable = {''.rshbulk/a/items/a1.json''}, file_of = (\<lambda>n. n)\<rparr>"

definition deep_fs :: filesystem where
  "deep_fs =
     \<lparr>files = [''../../../tmp/wc.json'' \<mapsto> ''true'', ''../../tmp/wc.json'' \<mapsto> ''true''],
      unwritable = {}, unreadable = {}, file_of = Abs ''/w/d''\<rparr>"

definition escaping_file :: File where
  "escaping_file = sample_file\<lparr>Path := ''../../../tmp/wc.json''\<rparr>"

definition ok_response :: Response where
  "ok_response =
     \<lparr>Status = 200, Headers = [''Etag'' \<mapsto> ''e1''], Links = Map.empty, Body = GoMapAny []\<rparr>"

definition schema_response :: Response where
  "schema_response =
     \<lparr>Status = 200, Headers = Map.empty, Links = Map.empty,
      Body = GoMapAny [(''$schema'', GoString ''https://example.com/schemas/item.json'')]\<rparr>"

definition schema_response_strings :: Response where
  "schema_response_strings =
     \<lparr>Status = 200, Headers = Map.empty, Links = Map.empty,
      Body = GoMapString [(''$schema'', ''https://example.com/schemas/item.json'')]\<rparr>"

section \<open>Auxiliary facts\<close>

lemma Join_sample_file: "Join ''.rshbulk'' ''a/items/a1.json'' = ''.rshbulk/a/items/a1.json''"
  by (simp add: Join_def Clean_def Clean_step_def)

lemma Join_escaping_file: "Join ''.rshbulk'' ''../../../tmp/wc.json'' = ''../../tmp/wc.json''"
  by (simp add: Join_def Clean_def Clean_step_def)

lemma Abs_escaping_file: "Abs ''/w/d'' ''../../../tmp/wc.json'' = ''/tmp/wc.json''"
  by (simp add: Abs_def Join_def Clean_def Clean_step_def)

lemma Abs_escaping_cache: "Abs ''/w/d'' ''../../tmp/wc.json'' = ''/tmp/wc.json''"
  by (simp add: Abs_def Join_def Clean_def Clean_step_def)

lemma written_self: "written fs name b name = Some b"
  by (simp add: written_def)

lemma written_other: "file_of fs n \<noteq> file_of fs name \<Longrightarrow> written fs name b n = files fs n"
  by (simp add: written_def)

lemma written_own: "file_of fs = (\<lambda>n. n) \<Longrightarrow> written fs name b = (files fs)(name \<mapsto> b)"
  by (auto simp: written_def fun_eq_iff)

lemma unwritable_not_writable: "name \<in> unwritable fs \<Longrightarrow> \<not> writable fs name"
  by (simp add: writable_def)

lemma WriteFile_None:
  "WriteFile fs name b = (None, fs') \<longleftrightarrow>
     writable fs name \<and> fs' = fs\<lparr>files := written fs name b\<rparr>"
  by (auto simp: WriteFile_def)

lemma Write_None:
  "Write e fs f b = (None, f', fs') \<longleftrightarrow>
     writable fs (Path f) \<and> f' = f\<lparr>Hash := hash e b\<rparr>
     \<and> fs' = fs\<lparr>files := written fs (Path f) b\<rparr>"
  by (auto simp: Write_def WriteFile_def writable_def written_own Let_def)

lemma Write_fst:
  "fst (Write e fs f b) = None \<longleftrightarrow> writable fs (Path f)"
  by (simp add: Write_def WriteFile_def writable_def written_own Let_def)

lemma fingerprint_Inr:
  "fingerprint e fs f = Inr h \<longleftrightarrow>
     (\<exists>b c. files fs (Path f) = Some b \<and> reformat e b = Inr c \<and> hash e c = h)"
  by (auto simp: fingerprint_def GetData_def ReadFile_def split: option.splits sum.splits)

lemma IsChangedLocal_iff:
  "fst (IsChangedLocal e fs f ignoreDeleted) \<longleftrightarrow>
     Hash f \<noteq> [] \<and>
     ((files fs (Path f) = None \<and> \<not> ignoreDeleted) \<or>
      (\<exists>b c. files fs (Path f) = Some b \<and> reformat e b = Inr c \<and> hash e c \<noteq> Hash f))"
  by (auto simp: IsChangedLocal_def GetData_def ReadFile_def split: option.splits sum.splits)

lemma reformat_parse_error:
  "Unmarshal e data = None \<Longrightarrow> reformat e data = MarshalShort e GoNil"
  by (simp add: reformat_def)

lemma Fetch_stages:
  "Status resp < 400 \<Longrightarrow>
   Fetch e (Inr resp) fs f =
     (case schema_step e resp (headers_step resp f) of
        Inl err \<Rightarrow> (Inl err, headers_step resp f, fs)
      | Inr f3 \<Rightarrow>
          (case MarshalShort e (Body resp) of
             Inl err \<Rightarrow> (Inl err, f3, fs)
           | Inr b \<Rightarrow>
               (case WriteCached fs (f3\<lparr>VersionLocal := VersionRemote f3\<rparr>) b of
                  (Some err, fs') \<Rightarrow> (Inl err, f3\<lparr>VersionLocal := VersionRemote f3\<rparr>, fs')
                | (None, fs') \<Rightarrow> (Inr b, f3\<lparr>VersionLocal := VersionRemote f3\<rparr>, fs'))))"
  unfolding Fetch_def headers_step_def schema_step_def Let_def
  by (simp split del: if_split cong: if_cong sum.case_cong list.case_cong option.case_cong)

lemma headers_step_frame:
  "Path (headers_step resp f) = Path f"
  "URL (headers_step resp f) = URL f"
  "VersionRemote (headers_step resp f) = VersionRemote f"
  "VersionLocal (headers_step resp f) = VersionLocal f"
  "Schema (headers_step resp f) = Schema f"
  "Hash (headers_step resp f) = Hash f"
  by (simp_all add: headers_step_def Let_def)

lemma headers_step_ETag:
  "ETag (headers_step resp f) = (if header resp ''Etag'' \<noteq> [] then header resp ''Etag'' else ETag f)"
  by (simp add: headers_step_def Let_def)

lemma headers_step_LastModified:
  "LastModified (headers_step resp f) =
     (if header resp ''Last-Modified'' \<noteq> [] then header resp ''Last-Modified'' else LastModified f)"
  by (simp add: headers_step_def Let_def)

lemma schema_step_frame:
  assumes "schema_step e resp f2 = Inr f3"
  shows "Path f3 = Path f2" "URL f3 = URL f2" "ETag f3 = ETag f2"
    "LastModified f3 = LastModified f2" "VersionRemote f3 = VersionRemote f2"
    "VersionLocal f3 = VersionLocal f2" "Hash f3 = Hash f2"
  using assms
  by (auto simp: schema_step_def Let_def split: list.splits option.splits if_splits)

lemma schema_step_no_link:
  assumes "links resp ''describedby'' = []" "MapIndexKind (Body resp) ''$schema'' \<noteq> KString"
  shows "schema_step e resp f2 = Inr f2"
  using assms by (simp add: schema_step_def Let_def)

lemma schema_step_link:
  assumes "links resp ''describedby'' = l # ls" "schema_step e resp f2 = Inr f3"
  shows "ResolveReference e (URL f2) (URI l) = Some (Schema f3)"
  using assms by (auto simp: schema_step_def split: option.splits)

lemma Fetch_Inr_cases:
  assumes "Fetch e got fs f = (Inr b, f', fs')"
  obtains resp f3 where "got = Inr resp" "Status resp < 400"
    "schema_step e resp (headers_step resp f) = Inr f3"
    "MarshalShort e (Body resp) = Inr b"
    "WriteCached fs (f3\<lparr>VersionLocal := VersionRemote f3\<rparr>) b = (None, fs')"
    "f' = f3\<lparr>VersionLocal := VersionRemote f3\<rparr>"
proof -
  from assms obtain resp where got: "got = Inr resp"
    by (cases got) (simp_all add: Fetch_def)
  have st: "Status resp < 400"
  proof (rule ccontr)
    assume "\<not> Status resp < 400"
    then show False using assms got by (simp add: Fetch_def)
  qed
  note F = assms [unfolded got Fetch_stages [OF st]]
  from F obtain f3 where s: "schema_step e resp (headers_step resp f) = Inr f3"
    by (cases "schema_step e resp (headers_step resp f)") simp_all
  from F s obtain b' where m: "MarshalShort e (Body resp) = Inr b'"
    by (cases "MarshalShort e (Body resp)") simp_all
  obtain w fs1 where w: "WriteCached fs (f3\<lparr>VersionLocal := VersionRemote f3\<rparr>) b' = (w, fs1)"
    by (cases "WriteCached fs (f3\<lparr>VersionLocal := VersionRemote f3\<rparr>) b'") 
  from F s m w have "w = None \<and> b' = b \<and> f' = f3\<lparr>VersionLocal := VersionRemote f3\<rparr> \<and> fs1 = fs'"
    by (cases w) simp_all
  with got st s m w that show thesis by blast
qed

text \<open>
  Three facts about the code as it is: a working copy with a syntax error is
  compared through the marshalled nil, with no warning; a body of type
  \<open>map[string]interface{}\<close> never sets \<open>Schema\<close>; a body of type
  \<open>map[string]string\<close> with a \<open>$schema\<close> entry sets it to the printed form of the map.
\<close>

lemma IsChangedLocal_parse_error:
  assumes "Hash f \<noteq> []" "files fs (Path f) = Some d" "Unmarshal e d = None"
    and "MarshalShort e GoNil = Inr n"
  shows "IsChangedLocal e fs f ignoreDeleted = (hash e n \<noteq> Hash f, [])"
  using assms by (simp add: IsChangedLocal_def GetData_def ReadFile_def reformat_def)

lemma MapIndexKind_GoMapAny: "MapIndexKind (GoMapAny m) key \<noteq> KString"
  by (simp split: option.splits)

lemma Fetch_schema_GoMapAny:
  assumes "Fetch e (Inr resp) fs f = (Inr b, f', fs')"
    and "links resp ''describedby'' = []" "Body resp = GoMapAny m"
  shows "Schema f' = Schema f"
proof -
  from assms(1) obtain resp' f3 where got: "Inr resp = (Inr resp' :: error + Response)"
    and s': "schema_step e resp' (headers_step resp' f) = Inr f3"
    and f': "f' = f3\<lparr>VersionLocal := VersionRemote f3\<rparr>"
    by (rule Fetch_Inr_cases)
  from got s' have s: "schema_step e resp (headers_step resp f) = Inr f3" by simp
  have "schema_step e resp (headers_step resp f) = Inr (headers_step resp f)"
  proof (rule schema_step_no_link)
    show "links resp ''describedby'' = []" by (rule assms(2))
    show "MapIndexKind (Body resp) ''$schema'' \<noteq> KString"
      unfolding assms(3) by (rule MapIndexKind_GoMapAny)
  qed
  with s have "f3 = headers_step resp f" by simp
  then show ?thesis by (simp add: f' headers_step_frame)
qed

lemma Fetch_schema_GoMapString:
  assumes "Fetch e (Inr resp) fs f = (Inr b, f', fs')"
    and "links resp ''describedby'' = []" "Body resp = GoMapString m" "map_of m ''$schema'' = Some u"
  shows "Schema f' = ''<map[string]string Value>''"
proof -
  from assms(1) obtain resp' f3 where got: "Inr resp = (Inr resp' :: error + Response)"
    and s': "schema_step e resp' (headers_step resp' f) = Inr f3"
    and f': "f' = f3\<lparr>VersionLocal := VersionRemote f3\<rparr>"
    by (rule Fetch_Inr_cases)
  from got s' have s: "schema_step e resp (headers_step resp f) = Inr f3" by simp
  have "schema_step e resp (headers_step resp f)
      = Inr ((headers_step resp f)\<lparr>Schema := ''<map[string]string Value>''\<rparr>)"
    using assms(2,3,4) by (simp add: schema_step_def)
  with s have "f3 = (headers_step resp f)\<lparr>Schema := ''<map[string]string Value>''\<rparr>" by simp
  then show ?thesis by (simp add: f')
qed

lemma Fetch_sample_ok:
  "Fetch sample_env (Inr ok_response) working_fs sample_file
     = (Inr ''{}'', sample_file\<lparr>ETag := ''e1'', VersionLocal := ''a12''\<rparr>,
        working_fs\<lparr>files := (files working_fs)(''.rshbulk/a/items/a1.json'' \<mapsto> ''{}'')\<rparr>)"
  by (simp add: Fetch_def Let_def links_def header_def ok_response_def sample_env_def
      sample_file_def working_fs_def WriteCached_def WriteFile_def writable_def written_own Join_sample_file)

section \<open>Write and IsChangedLocal\<close>

text \<open>
  C1, as amended. After a \<open>Write(b)\<close> that returns nil, \<open>Hash\<close> is the hash of \<open>b\<close>
  itself and the working copy reads back as \<open>b\<close>. So the fingerprint of the working
  copy, \<open>hash(reformat(read(f.Path)))\<close>, equals \<open>Hash\<close> exactly when \<open>reformat(b)\<close>
  succeeds with bytes of the same hash as \<open>b\<close>; in particular it does whenever \<open>b\<close> is
  already canonical, \<open>reformat(b) = b\<close>.
\<close>

theorem Write_fingerprint:
  assumes "Write e fs f b = (None, f', fs')"
  shows "Hash f' = hash e b
       \<and> GetData fs' f' = Inr b
       \<and> (fingerprint e fs' f' = Inr (Hash f') \<longleftrightarrow> (\<exists>c. reformat e b = Inr c \<and> hash e c = hash e b))
       \<and> (reformat e b = Inr b \<longrightarrow> fingerprint e fs' f' = Inr (Hash f'))"
proof -
  from assms have f': "f' = f\<lparr>Hash := hash e b\<rparr>"
    and fs': "fs' = fs\<lparr>files := written fs (Path f) b\<rparr>"
    by (simp_all add: Write_None)
  have 1: "Hash f' = hash e b" by (simp add: f')
  have 2: "GetData fs' f' = Inr b" by (simp add: f' fs' GetData_def ReadFile_def written_self)
  have 3: "fingerprint e fs' f' = Inr (Hash f') \<longleftrightarrow> (\<exists>c. reformat e b = Inr c \<and> hash e c = hash e b)"
    by (simp add: fingerprint_Inr f' fs' written_self)
  from 3 have 4: "reformat e b = Inr b \<longrightarrow> fingerprint e fs' f' = Inr (Hash f')" by simp
  from 1 2 3 4 show ?thesis by blast
qed

theorem Write_fingerprint_witness:
  "Write sample_env empty_fs sample_file ''{}''
     = (None, sample_file\<lparr>Hash := hash sample_env ''{}''\<rparr>,
        empty_fs\<lparr>files := [''a/items/a1.json'' \<mapsto> ''{}'']\<rparr>)
   \<and> reformat sample_env ''{}'' = Inr ''{}''
   \<and> fingerprint sample_env (empty_fs\<lparr>files := [''a/items/a1.json'' \<mapsto> ''{}'']\<rparr>)
        (sample_file\<lparr>Hash := hash sample_env ''{}''\<rparr>)
      = Inr (Hash (sample_file\<lparr>Hash := hash sample_env ''{}''\<rparr>))"
proof -
  have w: "Write sample_env empty_fs sample_file ''{}''
     = (None, sample_file\<lparr>Hash := hash sample_env ''{}''\<rparr>,
        empty_fs\<lparr>files := [''a/items/a1.json'' \<mapsto> ''{}'']\<rparr>)"
    by (simp add: Write_def WriteFile_def writable_def written_own Let_def sample_file_def empty_fs_def)
  have r: "reformat sample_env ''{}'' = Inr ''{}''"
    by (simp add: reformat_def sample_env_def sample_unmarshal_def)
  from Write_fingerprint [OF w] r show ?thesis using w by simp
qed

text \<open>
  The equation does not hold for every \<open>b\<close>: \<open>Write\<close> hashes the bytes it is given, not
  their canonical form. For the document \<open>{ }\<close>, whose canonical form is \<open>{}\<close>, the
  write succeeds and the fingerprint of the working copy differs from \<open>Hash\<close>.
\<close>

theorem Write_fingerprint_counterexample:
  "fst (Write sample_env empty_fs sample_file ''{ }'') = None
   \<and> (case Write sample_env empty_fs sample_file ''{ }'' of
        (err, f', fs') \<Rightarrow> fingerprint sample_env fs' f' \<noteq> Inr (Hash f'))"
  by (simp add: Write_def WriteFile_def writable_def written_own Let_def sample_file_def empty_fs_def fingerprint_def
      GetData_def ReadFile_def reformat_def sample_env_def sample_unmarshal_def hash_def
      sample_hash_def)

text \<open>
  C2. \<open>reformat\<close> drops the error of \<open>json.Unmarshal\<close>, so a working copy that does not
  parse is not an error of \<open>reformat\<close>: nil is marshalled in its place, no warning is
  logged and the hash of that output is compared with \<open>Hash\<close>. For a record whose
  \<open>Hash\<close> is that of \<open>{}\<close> and a working copy holding \<open>{\<close>, \<open>IsChangedLocal\<close> returns
  true and logs nothing, for both values of \<open>ignoreDeleted\<close>.
\<close>

theorem IsChangedLocal_parse_error_no_warning:
  "Hash (sample_file\<lparr>Hash := hash sample_env ''{}''\<rparr>) \<noteq> []
   \<and> GetData broken_fs (sample_file\<lparr>Hash := hash sample_env ''{}''\<rparr>) = Inr ''{''
   \<and> Unmarshal sample_env ''{'' = None
   \<and> reformat sample_env ''{'' = Inr ''null''
   \<and> IsChangedLocal sample_env broken_fs (sample_file\<lparr>Hash := hash sample_env ''{}''\<rparr>) True
      = (True, [])
   \<and> IsChangedLocal sample_env broken_fs (sample_file\<lparr>Hash := hash sample_env ''{}''\<rparr>) False
      = (True, [])"
  by (simp add: IsChangedLocal_def GetData_def ReadFile_def reformat_def broken_fs_def
      sample_env_def sample_unmarshal_def sample_file_def hash_def sample_hash_def)

text \<open>
  C4. A record with a non-empty \<open>Hash\<close> whose working copy exists and does not parse:
  neither (a) nor (b) of the claim holds, and \<open>IsChangedLocal\<close> returns true. (Lemma
  \<open>IsChangedLocal_iff\<close> above is what the code decides: (b) asks that \<open>reformat\<close>
  succeeds, and \<open>reformat\<close> succeeds on bytes that do not parse.)
\<close>

theorem IsChangedLocal_unparsable_is_changed:
  "Hash (sample_file\<lparr>Hash := hash sample_env ''true''\<rparr>) \<noteq> []
   \<and> files (empty_fs\<lparr>files := [''a/items/a1.json'' \<mapsto> ''tru'']\<rparr>)
        (Path (sample_file\<lparr>Hash := hash sample_env ''true''\<rparr>)) = Some ''tru''
   \<and> Unmarshal sample_env ''tru'' = None
   \<and> fst (IsChangedLocal sample_env (empty_fs\<lparr>files := [''a/items/a1.json'' \<mapsto> ''tru'']\<rparr>)
        (sample_file\<lparr>Hash := hash sample_env ''true''\<rparr>) True)"
  by (simp add: IsChangedLocal_def GetData_def ReadFile_def reformat_def empty_fs_def
      sample_env_def sample_unmarshal_def sample_file_def hash_def sample_hash_def)

text \<open>
  C7, as amended. Let \<open>Hash\<close> be recorded by a \<open>Write(b)\<close> that returned nil, and let the
  working copy then hold any bytes \<open>d\<close> with \<open>reformat(d) = reformat(b)\<close>. Then
  \<open>IsChangedLocal\<close> returns true exactly when the hash of \<open>b\<close> is not empty and
  \<open>reformat(b)\<close> succeeds with bytes whose hash differs from that of \<open>b\<close>. In
  particular it returns false, with no warning, whenever the bytes written were
  already canonical, \<open>reformat(b) = b\<close>.
\<close>

theorem IsChangedLocal_after_edit:
  assumes "Write e fs f b = (None, f', fs')"
    and "files fs'' (Path f') = Some d"
    and "reformat e d = reformat e b"
  shows "(fst (IsChangedLocal e fs'' f' ignoreDeleted) \<longleftrightarrow>
            hash e b \<noteq> [] \<and> (\<exists>c. reformat e b = Inr c \<and> hash e c \<noteq> hash e b))
       \<and> (reformat e b = Inr b \<longrightarrow> IsChangedLocal e fs'' f' ignoreDeleted = (False, []))"
proof -
  from assms(1) have f': "f' = f\<lparr>Hash := hash e b\<rparr>" by (simp add: Write_None)
  have 1: "fst (IsChangedLocal e fs'' f' ignoreDeleted) \<longleftrightarrow>
            hash e b \<noteq> [] \<and> (\<exists>c. reformat e b = Inr c \<and> hash e c \<noteq> hash e b)"
    using assms(2,3) by (simp add: IsChangedLocal_iff f')
  have 2: "reformat e b = Inr b \<longrightarrow> IsChangedLocal e fs'' f' ignoreDeleted = (False, [])"
    using assms(2,3) by (simp add: IsChangedLocal_def GetData_def ReadFile_def f')
  from 1 2 show ?thesis by blast
qed

theorem IsChangedLocal_after_edit_witness:
  "Write sample_env empty_fs sample_file ''{}''
     = (None, sample_file\<lparr>Hash := hash sample_env ''{}''\<rparr>,
        empty_fs\<lparr>files := [''a/items/a1.json'' \<mapsto> ''{}'']\<rparr>)
   \<and> reformat sample_env ''{   }'' = reformat sample_env ''{}''
   \<and> reformat sample_env ''{}'' = Inr ''{}''
   \<and> IsChangedLocal sample_env (empty_fs\<lparr>files := [''a/items/a1.json'' \<mapsto> ''{   }'']\<rparr>)
        (sample_file\<lparr>Hash := hash sample_env ''{}''\<rparr>) False = (False, [])"
proof -
  have w: "Write sample_env empty_fs sample_file ''{}''
     = (None, sample_file\<lparr>Hash := hash sample_env ''{}''\<rparr>,
        empty_fs\<lparr>files := [''a/items/a1.json'' \<mapsto> ''{}'']\<rparr>)"
    by (simp add: Write_def WriteFile_def writable_def written_own Let_def sample_file_def empty_fs_def)
  have d: "files (empty_fs\<lparr>files := [''a/items/a1.json'' \<mapsto> ''{   }'']\<rparr>)
             (Path (sample_file\<lparr>Hash := hash sample_env ''{}''\<rparr>)) = Some ''{   }''"
    by (simp add: sample_file_def)
  have r: "reformat sample_env ''{   }'' = reformat sample_env ''{}''"
    by (simp add: reformat_def sample_env_def sample_unmarshal_def)
  have c: "reformat sample_env ''{}'' = Inr ''{}''"
    by (simp add: reformat_def sample_env_def sample_unmarshal_def)
  from IsChangedLocal_after_edit [OF w d r, of False] c w r show ?thesis by simp
qed

text \<open>
  Without that condition it fails: after writing \<open>true\<close> with a leading space, the edit
  that removes the space keeps the canonical form, and \<open>IsChangedLocal\<close> returns true.
\<close>

theorem IsChangedLocal_after_edit_counterexample:
  "fst (Write sample_env empty_fs sample_file '' true'') = None
   \<and> reformat sample_env ''true'' = reformat sample_env '' true''
   \<and> (case Write sample_env empty_fs sample_file '' true'' of
        (err, f', fs') \<Rightarrow>
          fst (IsChangedLocal sample_env (fs'\<lparr>files := (files fs')(Path f' \<mapsto> ''true'')\<rparr>) f' False))"
  by (simp add: Write_def WriteFile_def writable_def written_own Let_def sample_file_def empty_fs_def IsChangedLocal_def
      GetData_def ReadFile_def reformat_def sample_env_def sample_unmarshal_def hash_def
      sample_hash_def)

section \<open>Reset\<close>

text \<open>
  C8, as amended. When the reference copy cannot be read, because there is none or
  because the one there cannot be opened, \<open>Reset\<close> returns the error of the read and
  leaves the record and the file system as they were. When it can be read and the
  working copy can be written, \<open>Reset\<close> returns nil, the working copy holds exactly the
  bytes of the reference copy and \<open>Hash\<close> is their hash. \<open>Reset\<close> returns nil exactly
  when the reference copy can be read and the write of the working copy succeeds.
\<close>

theorem Reset_outcome:
  "(\<forall>err. ReadFile fs (Join metaDir (Path f)) = Inl err \<longrightarrow> Reset e fs f = (Some err, f, fs))
   \<and> (files fs (Join metaDir (Path f)) = None \<longrightarrow> (\<exists>err. Reset e fs f = (Some err, f, fs)))
   \<and> (\<forall>cached. ReadFile fs (Join metaDir (Path f)) = Inr cached \<and> writable fs (Path f) \<longrightarrow>
        Reset e fs f
          = (None, f\<lparr>Hash := hash e cached\<rparr>, fs\<lparr>files := written fs (Path f) cached\<rparr>)
        \<and> written fs (Path f) cached (Path f) = Some cached)
   \<and> (fst (Reset e fs f) = None \<longleftrightarrow>
        (\<exists>cached. ReadFile fs (Join metaDir (Path f)) = Inr cached) \<and> writable fs (Path f))"
proof -
  have 1: "\<forall>err. ReadFile fs (Join metaDir (Path f)) = Inl err \<longrightarrow> Reset e fs f = (Some err, f, fs)"
    by (simp add: Reset_def)
  have 2: "files fs (Join metaDir (Path f)) = None \<longrightarrow> (\<exists>err. Reset e fs f = (Some err, f, fs))"
    by (simp add: Reset_def ReadFile_def)
  have 3: "\<forall>cached. ReadFile fs (Join metaDir (Path f)) = Inr cached \<and> writable fs (Path f) \<longrightarrow>
        Reset e fs f
          = (None, f\<lparr>Hash := hash e cached\<rparr>, fs\<lparr>files := written fs (Path f) cached\<rparr>)
        \<and> written fs (Path f) cached (Path f) = Some cached"
    by (simp add: Reset_def Write_def WriteFile_def Let_def written_self)
  have 4: "fst (Reset e fs f) = None \<longleftrightarrow>
        (\<exists>cached. ReadFile fs (Join metaDir (Path f)) = Inr cached) \<and> writable fs (Path f)"
    by (cases "ReadFile fs (Join metaDir (Path f))") (simp_all add: Reset_def Write_fst)
  from 1 2 3 4 show ?thesis by blast
qed

theorem Reset_outcome_witness:
  "ReadFile cached_fs (Join metaDir (Path sample_file)) = Inr ''{}''
   \<and> writable cached_fs (Path sample_file)
   \<and> Reset sample_env cached_fs sample_file
      = (None, sample_file\<lparr>Hash := hash sample_env ''{}''\<rparr>,
         cached_fs\<lparr>files := (files cached_fs)(Path sample_file \<mapsto> ''{}'')\<rparr>)
   \<and> files empty_fs (Join metaDir (Path sample_file)) = None
   \<and> (\<exists>err. Reset sample_env empty_fs sample_file = (Some err, sample_file, empty_fs))
   \<and> Join metaDir (Path sample_file) \<in> unreadable unreadable_fs
   \<and> ReadFile unreadable_fs (Join metaDir (Path sample_file))
      = Inl (Error ''open .rshbulk/a/items/a1.json: permission denied'')
   \<and> Reset sample_env unreadable_fs sample_file
      = (Some (Error ''open .rshbulk/a/items/a1.json: permission denied''),
         sample_file, unreadable_fs)"
proof -
  have a: "ReadFile cached_fs (Join metaDir (Path sample_file)) = Inr ''{}''"
    by (simp add: ReadFile_def cached_fs_def metaDir_def sample_file_def Join_sample_file)
  have b: "writable cached_fs (Path sample_file)"
    by (simp add: writable_def cached_fs_def)
  have c: "files empty_fs (Join metaDir (Path sample_file)) = None"
    by (simp add: empty_fs_def)
  have d: "Join metaDir (Path sample_file) \<in> unreadable unreadable_fs"
    by (simp add: unreadable_fs_def metaDir_def sample_file_def Join_sample_file)
  have r: "ReadFile unreadable_fs (Join metaDir (Path sample_file))
      = Inl (Error ''open .rshbulk/a/items/a1.json: permission denied'')"
    by (simp add: ReadFile_def unreadable_fs_def metaDir_def sample_file_def Join_sample_file)
  have o: "written cached_fs (Path sample_file) ''{}'' = (files cached_fs)(Path sample_file \<mapsto> ''{}'')"
    by (rule written_own) (simp add: cached_fs_def)
  from Reset_outcome [where fs = cached_fs and e = sample_env and f = sample_file]
    Reset_outcome [where fs = empty_fs and e = sample_env and f = sample_file]
    Reset_outcome [where fs = unreadable_fs and e = sample_env and f = sample_file]
    a b c d r o
  show ?thesis by simp
qed

text \<open>
  The missing reference copy is not the only failure: with the reference copy in place
  and a working copy that cannot be written, \<open>Reset\<close> returns the error of \<open>Write\<close>.
\<close>

theorem Reset_outcome_counterexample:
  "files readonly_fs (Join metaDir (Path sample_file)) = Some ''{}''
   \<and> Reset sample_env readonly_fs sample_file
      = (Some (Error ''open a/items/a1.json: permission denied''),
         sample_file\<lparr>Hash := hash sample_env ''{}''\<rparr>, readonly_fs)"
  by (simp add: Reset_def ReadFile_def Write_def WriteFile_def writable_def Let_def readonly_fs_def
      sample_env_def metaDir_def sample_file_def Join_sample_file)

section \<open>Fetch\<close>

text \<open>
  C3. A status 200 response with no \<open>describedby\<close> link and the body
  \<open>{"$schema": "https://example.com/schemas/item.json"}\<close> as a
  \<open>map[string]interface{}\<close>: \<open>Fetch\<close> succeeds and \<open>Schema\<close> is still \<open>s0\<close>, its value
  before the call, since \<open>MapIndex\<close> gives a value of kind \<open>Interface\<close>. With the same
  body as a \<open>map[string]string\<close> the kind is \<open>String\<close> and \<open>Schema\<close> becomes
  \<open>v.String()\<close> of the map, not the field.
\<close>

theorem Fetch_body_schema_not_taken:
  \<open>links schema_response ''describedby'' = []
   \<and> map_of [(''$schema'', GoString ''https://example.com/schemas/item.json'')] ''$schema''
      = Some (GoString ''https://example.com/schemas/item.json'')
   \<and> Fetch sample_env (Inr schema_response) empty_fs sample_file
      = (Inr ''{"$schema":"https://example.com/schemas/item.json"}'',
         sample_file\<lparr>VersionLocal := ''a12''\<rparr>,
         empty_fs\<lparr>files := [''.rshbulk/a/items/a1.json'' \<mapsto>
            ''{"$schema":"https://example.com/schemas/item.json"}'']\<rparr>)
   \<and> Schema (sample_file\<lparr>VersionLocal := ''a12''\<rparr>) = ''s0''
   \<and> Schema (fst (snd (Fetch sample_env (Inr schema_response_strings) empty_fs sample_file)))
      = ''<map[string]string Value>''\<close>
  by (simp add: Fetch_def Let_def links_def header_def schema_response_def
      schema_response_strings_def sample_env_def sample_file_def empty_fs_def
      WriteCached_def WriteFile_def writable_def written_own Join_sample_file)

text \<open>
  C5. When the response to the GET has a status of 400 or more, \<open>Fetch\<close> returns an
  error, the record is returned with every field as it was, and the file system is as
  it was: the reference copy under \<open>.rshbulk\<close> is not written.
\<close>

theorem Fetch_status_error_leaves_all:
  assumes "Status resp \<ge> 400"
  shows "Fetch e (Inr resp) fs f = (Inl (Error (''error fetching '' @ URL f)), f, fs)"
  using assms by (simp add: Fetch_def)

theorem Fetch_status_error_leaves_all_witness:
  "Status (\<lparr>Status = 500, Headers = [''Etag'' \<mapsto> ''e1''], Links = Map.empty, Body = GoMapAny []\<rparr>) \<ge> 400
   \<and> Fetch sample_env
        (Inr \<lparr>Status = 500, Headers = [''Etag'' \<mapsto> ''e1''], Links = Map.empty, Body = GoMapAny []\<rparr>)
        empty_fs sample_file
      = (Inl (Error ''error fetching https://example.com/users/a/items/a1''), sample_file, empty_fs)"
  using Fetch_status_error_leaves_all
    [of "\<lparr>Status = 500, Headers = [''Etag'' \<mapsto> ''e1''], Links = Map.empty, Body = GoMapAny []\<rparr>"
        sample_env empty_fs sample_file]
  by (simp add: sample_file_def)

text \<open>
  C6, as amended. When \<open>Fetch\<close> returns without error: \<open>VersionLocal\<close> equals
  \<open>VersionRemote\<close>; the bytes returned are \<open>MarshalShort\<close> of the response body; the
  file at \<open>path.Join(".rshbulk", f.Path)\<close> holds exactly these bytes; this is the only
  file written (every path that names another file reads as before); and the working
  copy at \<open>f.Path\<close> is as it was whenever \<open>f.Path\<close> and
  \<open>path.Join(".rshbulk", f.Path)\<close> name different files.
\<close>

theorem Fetch_success_reference_copy:
  assumes "Fetch e got fs f = (Inr b, f', fs')"
  shows "VersionLocal f' = VersionRemote f'
       \<and> (\<exists>resp. got = Inr resp \<and> MarshalShort e (Body resp) = Inr b)
       \<and> Path f' = Path f
       \<and> files fs' (Join ''.rshbulk'' (Path f)) = Some b
       \<and> fs' = fs\<lparr>files := written fs (Join ''.rshbulk'' (Path f)) b\<rparr>
       \<and> (\<forall>name. file_of fs name \<noteq> file_of fs (Join ''.rshbulk'' (Path f)) \<longrightarrow>
            files fs' name = files fs name)
       \<and> (file_of fs (Path f) \<noteq> file_of fs (Join ''.rshbulk'' (Path f)) \<longrightarrow>
            files fs' (Path f) = files fs (Path f))"
proof -
  from assms obtain resp f3 where got: "got = Inr resp"
    and s: "schema_step e resp (headers_step resp f) = Inr f3"
    and m: "MarshalShort e (Body resp) = Inr b"
    and w: "WriteCached fs (f3\<lparr>VersionLocal := VersionRemote f3\<rparr>) b = (None, fs')"
    and f': "f' = f3\<lparr>VersionLocal := VersionRemote f3\<rparr>"
    by (rule Fetch_Inr_cases)
  have p: "Path f3 = Path f"
    using schema_step_frame(1) [OF s] by (simp add: headers_step_frame)
  from w p have fs': "fs' = fs\<lparr>files := written fs (Join ''.rshbulk'' (Path f)) b\<rparr>"
    by (simp add: WriteCached_def WriteFile_None)
  from f' have "VersionLocal f' = VersionRemote f'" by simp
  moreover from got m have "\<exists>resp. got = Inr resp \<and> MarshalShort e (Body resp) = Inr b" by blast
  moreover from f' p have "Path f' = Path f" by simp
  moreover from fs' have "files fs' (Join ''.rshbulk'' (Path f)) = Some b"
    by (simp add: written_self)
  moreover from fs' have o: "\<forall>name. file_of fs name \<noteq> file_of fs (Join ''.rshbulk'' (Path f)) \<longrightarrow>
      files fs' name = files fs name"
    by (simp add: written_other)
  moreover from o have "file_of fs (Path f) \<noteq> file_of fs (Join ''.rshbulk'' (Path f)) \<longrightarrow>
      files fs' (Path f) = files fs (Path f)"
    by blast
  ultimately show ?thesis using fs' by blast
qed

theorem Fetch_success_reference_copy_witness:
  "Fetch sample_env (Inr ok_response) working_fs sample_file
     = (Inr ''{}'', sample_file\<lparr>ETag := ''e1'', VersionLocal := ''a12''\<rparr>,
        working_fs\<lparr>files := (files working_fs)(''.rshbulk/a/items/a1.json'' \<mapsto> ''{}'')\<rparr>)
   \<and> file_of working_fs (Path sample_file)
      \<noteq> file_of working_fs (Join ''.rshbulk'' (Path sample_file))
   \<and> files (working_fs\<lparr>files := (files working_fs)(''.rshbulk/a/items/a1.json'' \<mapsto> ''{}'')\<rparr>)
        (Join ''.rshbulk'' (Path sample_file)) = Some ''{}''
   \<and> files (working_fs\<lparr>files := (files working_fs)(''.rshbulk/a/items/a1.json'' \<mapsto> ''{}'')\<rparr>)
        (Path sample_file) = Some ''true''"
proof -
  have n: "file_of working_fs (Path sample_file)
      \<noteq> file_of working_fs (Join ''.rshbulk'' (Path sample_file))"
    by (simp add: working_fs_def sample_file_def Join_sample_file)
  have o: "files working_fs (Path sample_file) = Some ''true''"
    by (simp add: working_fs_def sample_file_def)
  note T = Fetch_success_reference_copy [OF Fetch_sample_ok]
  from T have 1:
    "files (working_fs\<lparr>files := (files working_fs)(''.rshbulk/a/items/a1.json'' \<mapsto> ''{}'')\<rparr>)
       (Join ''.rshbulk'' (Path sample_file)) = Some ''{}''"
    by blast
  from T n have
    "files (working_fs\<lparr>files := (files working_fs)(''.rshbulk/a/items/a1.json'' \<mapsto> ''{}'')\<rparr>)
       (Path sample_file) = files working_fs (Path sample_file)"
    by blast
  then have 2:
    "files (working_fs\<lparr>files := (files working_fs)(''.rshbulk/a/items/a1.json'' \<mapsto> ''{}'')\<rparr>)
       (Path sample_file) = Some ''true''"
    by (rule trans) (rule o)
  show ?thesis by (rule conjI [OF Fetch_sample_ok conjI [OF n conjI [OF 1 2]]])
qed

text \<open>
  Without that condition the working copy can be overwritten. In a working directory
  two levels below the root, the path \<open>../../../tmp/wc.json\<close> and the path of its
  reference copy, \<open>../../tmp/wc.json\<close>, both name the file \<open>/tmp/wc.json\<close>: \<open>Fetch\<close>
  succeeds and the working copy, which held \<open>true\<close>, holds the fetched body.
\<close>

theorem Fetch_success_reference_copy_counterexample:
  "fst (Fetch sample_env (Inr ok_response) deep_fs escaping_file) = Inr ''{}''
   \<and> files deep_fs (Path escaping_file) = Some ''true''
   \<and> files (snd (snd (Fetch sample_env (Inr ok_response) deep_fs escaping_file)))
        (Path escaping_file) = Some ''{}''
   \<and> Join ''.rshbulk'' (Path escaping_file) = ''../../tmp/wc.json''
   \<and> file_of deep_fs (Path escaping_file) = ''/tmp/wc.json''
   \<and> file_of deep_fs (Join ''.rshbulk'' (Path escaping_file)) = ''/tmp/wc.json''"
  by (simp add: Fetch_def Let_def links_def header_def ok_response_def sample_env_def
      escaping_file_def sample_file_def deep_fs_def WriteCached_def WriteFile_def writable_def
      written_def Join_escaping_file Abs_escaping_file Abs_escaping_cache)



text \<open>
  C10. After a \<open>Fetch\<close> that returns without error: \<open>ETag\<close> is the \<open>Etag\<close> header when
  that is not empty and is unchanged when it is; the same for \<open>LastModified\<close> and the
  \<open>Last-Modified\<close> header; \<open>Path\<close>, \<open>URL\<close>, \<open>VersionRemote\<close> and \<open>Hash\<close> are
  unchanged; \<open>VersionLocal\<close> is \<open>VersionRemote\<close>; \<open>Schema\<close> is the resolved
  \<open>describedby\<close> link when there is one, and is unchanged when there is none and the
  body's \<open>$schema\<close> entry is not of kind \<open>String\<close>.
\<close>

theorem Fetch_frame:
  assumes "Fetch e (Inr resp) fs f = (Inr b, f', fs')"
  shows "(header resp ''Etag'' = [] \<longrightarrow> ETag f' = ETag f)
       \<and> (header resp ''Last-Modified'' = [] \<longrightarrow> LastModified f' = LastModified f)
       \<and> (header resp ''Etag'' \<noteq> [] \<longrightarrow> ETag f' = header resp ''Etag'')
       \<and> (header resp ''Last-Modified'' \<noteq> [] \<longrightarrow> LastModified f' = header resp ''Last-Modified'')
       \<and> Path f' = Path f \<and> URL f' = URL f \<and> VersionRemote f' = VersionRemote f
       \<and> Hash f' = Hash f \<and> VersionLocal f' = VersionRemote f
       \<and> (links resp ''describedby'' = [] \<and> MapIndexKind (Body resp) ''$schema'' \<noteq> KString \<longrightarrow>
            Schema f' = Schema f)
       \<and> (\<forall>l ls. links resp ''describedby'' = l # ls \<longrightarrow>
            ResolveReference e (URL f) (URI l) = Some (Schema f'))"
proof -
  from assms obtain resp' f3 where got: "Inr resp = (Inr resp' :: error + Response)"
    and s': "schema_step e resp' (headers_step resp' f) = Inr f3"
    and f': "f' = f3\<lparr>VersionLocal := VersionRemote f3\<rparr>"
    by (rule Fetch_Inr_cases)
  from got s' have s: "schema_step e resp (headers_step resp f) = Inr f3" by simp
  note fr = schema_step_frame [OF s]
  have et: "ETag f' = (if header resp ''Etag'' \<noteq> [] then header resp ''Etag'' else ETag f)"
    using fr(3) by (simp add: f' headers_step_ETag)
  have lm: "LastModified f' =
      (if header resp ''Last-Modified'' \<noteq> [] then header resp ''Last-Modified'' else LastModified f)"
    using fr(4) by (simp add: f' headers_step_LastModified)
  have rest: "Path f' = Path f \<and> URL f' = URL f \<and> VersionRemote f' = VersionRemote f
       \<and> Hash f' = Hash f \<and> VersionLocal f' = VersionRemote f"
    using fr by (simp add: f' headers_step_frame)
  have sc: "links resp ''describedby'' = [] \<and> MapIndexKind (Body resp) ''$schema'' \<noteq> KString \<longrightarrow>
            Schema f' = Schema f"
  proof
    assume "links resp ''describedby'' = [] \<and> MapIndexKind (Body resp) ''$schema'' \<noteq> KString"
    then have "schema_step e resp (headers_step resp f) = Inr (headers_step resp f)"
      by (simp add: schema_step_no_link)
    with s have "f3 = headers_step resp f" by simp
    then show "Schema f' = Schema f" by (simp add: f' headers_step_frame)
  qed
  have ln: "\<forall>l ls. links resp ''describedby'' = l # ls \<longrightarrow>
            ResolveReference e (URL f) (URI l) = Some (Schema f')"
    using schema_step_link [OF _ s] by (simp add: f' headers_step_frame)
  from et lm rest sc ln show ?thesis by simp
qed

theorem Fetch_frame_witness:
  "Fetch sample_env (Inr ok_response) working_fs sample_file
     = (Inr ''{}'', sample_file\<lparr>ETag := ''e1'', VersionLocal := ''a12''\<rparr>,
        working_fs\<lparr>files := (files working_fs)(''.rshbulk/a/items/a1.json'' \<mapsto> ''{}'')\<rparr>)
   \<and> header ok_response ''Last-Modified'' = []
   \<and> header ok_response ''Etag'' = ''e1''
   \<and> LastModified (sample_file\<lparr>ETag := ''e1'', VersionLocal := ''a12''\<rparr>) = LastModified sample_file
   \<and> ETag (sample_file\<lparr>ETag := ''e1'', VersionLocal := ''a12''\<rparr>) = ''e1''"
proof -
  have 1: "header ok_response ''Last-Modified'' = []" by (simp add: header_def ok_response_def)
  have 2: "header ok_response ''Etag'' = ''e1''" by (simp add: header_def ok_response_def)
  from Fetch_frame [OF Fetch_sample_ok] 1 2 Fetch_sample_ok show ?thesis by simp
qed

end
